theory Spec2Isabelle
  imports Main
begin

section \<open>Data model\<close>

text \<open>
  The launcher package of common-fate/observability wires OpenTelemetry trace and
  metrics pipelines together.  The embedding below follows \<^verbatim>\<open>launcher/launcher.go\<close>
  and \<^verbatim>\<open>pipelines/trace.go\<close>.  Everything the package calls but does not define
  (the OpenTelemetry SDK, \<^verbatim>\<open>envconfig\<close>, \<^verbatim>\<open>os.Hostname\<close>, and
  \<^verbatim>\<open>pipelines.NewMetricsPipeline\<close> of the metrics file of the package)
  is a field of the record \<open>externals\<close>: the theorems hold for every behaviour
  of these collaborators.  Debug log lines are not modelled; a \<^verbatim>\<open>Fatal\<close> log line
  terminates the process and is an outcome of its own.
\<close>

subsection \<open>Attributes, errors, contexts\<close>

text \<open>
  \<^verbatim>\<open>attribute.KeyValue\<close>.  Every attribute of this program is string valued
  (\<^verbatim>\<open>attribute.String\<close>, and the attributes that \<^verbatim>\<open>resource.Environment\<close> parses
  from the environment), and on a string value \<^verbatim>\<open>Value.AsString()\<close> and
  \<^verbatim>\<open>Value.Emit()\<close> both return the string.
\<close>

record KeyValue =
  Key :: string
  Value :: string

definition attribute_String :: "string \<Rightarrow> string \<Rightarrow> KeyValue" where
  "attribute_String k v = \<lparr>Key = k, Value = v\<rparr>"

text \<open>The keys of \<^verbatim>\<open>semconv/v1.5.0\<close> that the launcher uses.\<close>

definition AttributeHostName :: string where
  "AttributeHostName = ''host.name''"

definition AttributeServiceName :: string where
  "AttributeServiceName = ''service.name''"

definition AttributeServiceVersion :: string where
  "AttributeServiceVersion = ''service.version''"

definition AttributeTelemetrySDKName :: string where
  "AttributeTelemetrySDKName = ''telemetry.sdk.name''"

definition AttributeTelemetrySDKLanguage :: string where
  "AttributeTelemetrySDKLanguage = ''telemetry.sdk.language''"

definition AttributeTelemetrySDKVersion :: string where
  "AttributeTelemetrySDKVersion = ''telemetry.sdk.version''"

definition SchemaURL :: string where
  "SchemaURL = ''https://opentelemetry.io/schemas/1.5.0''"

text \<open>A Go \<^verbatim>\<open>error\<close> value, by its message; \<open>None\<close> of \<open>error option\<close> is \<^verbatim>\<open>nil\<close>.\<close>

datatype error = Error string

fun Error_msg :: "error \<Rightarrow> string" where
  "Error_msg (Error m) = m"

text \<open>A \<^verbatim>\<open>context.Context\<close>: the background context or a caller's own.\<close>

datatype ctx = Background | Ctx nat

text \<open>
  An \<^verbatim>\<open>otel.ErrorHandler\<close>: the launcher's \<^verbatim>\<open>defaultHandler\<close> or a caller's own.
\<close>

datatype errorHandler = DefaultHandler | CustomHandler nat

text \<open>
  A \<^verbatim>\<open>*resource.Resource\<close>, as the schema URL it was built with and the list that
  its \<^verbatim>\<open>Attributes()\<close> method returns.
\<close>

record resource =
  schemaURL :: string
  Attributes :: "KeyValue list"

subsection \<open>Configuration\<close>

text \<open>
  \<^verbatim>\<open>launcher.Config\<close>.  A Go map is an association list in the order in which
  \<^verbatim>\<open>range\<close> yields its entries (its keys are distinct; \<^verbatim>\<open>nil\<close> and the empty map
  both range over nothing) where the code iterates it, and a partial function
  where it is only passed on; \<open>None\<close> is the \<^verbatim>\<open>nil\<close> map.
  \<^verbatim>\<open>time.Duration\<close> counts nanoseconds.  The field \<^verbatim>\<open>context\<close> is spelt
  \<open>context_cfg\<close>.
\<close>

record Config =
  SpanExporterEndpoint :: string
  SpanExporterEndpointInsecure :: bool
  ServiceName :: string
  ServiceVersion :: string
  Headers :: "(string \<rightharpoonup> string) option"
  MetricExporterEndpoint :: string
  MetricExporterEndpointInsecure :: bool
  MetricsEnabled :: bool
  LogLevel :: string
  Propagators :: "string list"
  MetricReportingPeriod :: string
  BatchTimeout :: int
  resourceAttributes :: "(string \<times> string) list"
  Resource :: resource
  errorHandler :: "errorHandler option"
  context_cfg :: ctx

text \<open>\<^verbatim>\<open>pipelines.PipelineConfig\<close>; its fields carry the suffix \<open>_p\<close>.\<close>

record PipelineConfig =
  Endpoint_p :: string
  Insecure_p :: bool
  Headers_p :: "(string \<rightharpoonup> string) option"
  Resource_p :: resource
  ReportingPeriod_p :: string
  BatchTimeout_p :: int
  Propagators_p :: "string list"

subsection \<open>The objects of the SDK and the process-wide state\<close>

text \<open>The four propagators of the table in \<^verbatim>\<open>configurePropagators\<close>.\<close>

datatype propagator = B3_MultipleHeader | Baggage | TraceContext | OT

text \<open>
  The gRPC client that \<^verbatim>\<open>newTraceExporter\<close> configures, the exporter built on it,
  the batching span processor around the exporter and the tracer provider.
\<close>

datatype secureOption = WithTLSCredentials | WithInsecure

record traceClient =
  secure :: secureOption
  endpoint :: string
  headers :: "(string \<rightharpoonup> string) option"
  compressor :: string

datatype exporter = Exporter traceClient

datatype batchSpanProcessor = BatchSpanProcessor exporter int

datatype sampler = AlwaysSample

record tracerProvider =
  tp_sampler :: sampler
  tp_spanProcessor :: batchSpanProcessor
  tp_resource :: resource

text \<open>The calls of a \<^verbatim>\<open>Shutdown\<close> method of the SDK, with the receiver and the context.\<close>

datatype call = BspShutdown batchSpanProcessor ctx | ExporterShutdown exporter ctx

text \<open>
  The state of the process that the package writes: the three global registrations of
  \<^verbatim>\<open>otel\<close> (\<open>None\<close> while this package has not set them) and the \<^verbatim>\<open>Shutdown\<close>
  calls made on SDK objects so far, oldest first.
\<close>

record world =
  tracerProvider_g :: "tracerProvider option"
  textMapPropagator_g :: "propagator list option"
  errorHandler_g :: "errorHandler option"
  calls :: "call list"

text \<open>
  A shutdown callback, \<^verbatim>\<open>func(context.Context) error\<close>, and the pair
  \<^verbatim>\<open>(func(context.Context) error, error)\<close> that a pipeline constructor returns; \<open>None\<close>
  is \<^verbatim>\<open>nil\<close> in both components.
\<close>

type_synonym shutdownFunc = "ctx \<Rightarrow> world \<Rightarrow> error option \<times> world"

type_synonym setupResult = "shutdownFunc option \<times> error option"

text \<open>
  What the package takes from outside:
  \<^item> \<^verbatim>\<open>envconfig.Process\<close>, which fills the struct it is given and may fail;
  \<^item> the attributes of \<^verbatim>\<open>resource.Environment()\<close>, the result of \<^verbatim>\<open>os.Hostname()\<close>,
    the package constant \<^verbatim>\<open>version\<close>, and \<^verbatim>\<open>resource.New\<close>, which turns the
    attribute list it is given into a Resource;
  \<^item> whether \<^verbatim>\<open>otlptrace.New\<close> fails on a client;
  \<^item> the result of a \<^verbatim>\<open>Shutdown\<close> call on an SDK object, given the calls made before;
  \<^item> \<^verbatim>\<open>pipelines.NewMetricsPipeline\<close>, any function of its signature on the state
    of the process.
\<close>

record externals =
  envconfig_Process :: "Config \<Rightarrow> Config \<times> error option"
  resource_Environment :: "KeyValue list"
  os_Hostname :: "error + string"
  version :: string
  resource_New :: "ctx \<Rightarrow> string \<Rightarrow> KeyValue list \<Rightarrow> resource"
  otlptrace_New :: "ctx \<Rightarrow> traceClient \<Rightarrow> error option"
  sdk_Shutdown :: "call list \<Rightarrow> call \<Rightarrow> error option"
  NewMetricsPipeline :: "ctx \<Rightarrow> PipelineConfig \<Rightarrow> world \<Rightarrow> setupResult \<times> world"

text \<open>\<^verbatim>\<open>launcher.Launcher\<close>.\<close>

record Launcher =
  config :: Config
  shutdownFuncs :: "shutdownFunc list"

text \<open>A \<^verbatim>\<open>Fatal\<close> log line: the process exits with this message.\<close>

datatype fatal = Fatal string

section \<open>The resource builder\<close>

text \<open>The loop of lines 219 to 223 over the environment's attributes.\<close>

fun scanHostname :: "KeyValue list \<Rightarrow> bool \<Rightarrow> bool" where
  "scanHostname [] hostnameSet = hostnameSet"
| "scanHostname (a # as) hostnameSet =
     scanHostname as
       (if Key a = AttributeHostName \<and> length (Value a) > 0 then True else hostnameSet)"

text \<open>The loop of lines 239 to 246 over the caller's resource attributes.\<close>

fun appendResourceAttributes ::
  "(string \<times> string) list \<Rightarrow> bool \<times> KeyValue list \<Rightarrow> bool \<times> KeyValue list" where
  "appendResourceAttributes [] (hostnameSet, attributes) = (hostnameSet, attributes)"
| "appendResourceAttributes ((key, val) # rest) (hostnameSet, attributes) =
     (if length val > 0
      then appendResourceAttributes rest
             (if key = AttributeHostName then True else hostnameSet,
              attributes @ [attribute_String key val])
      else appendResourceAttributes rest (hostnameSet, attributes))"

text \<open>
  Lines 216 to 257 of \<^verbatim>\<open>newResource\<close>: the attribute list handed to
  \<^verbatim>\<open>resource.WithAttributes\<close>.
\<close>

definition newResource_attributes :: "externals \<Rightarrow> Config \<Rightarrow> KeyValue list" where
  "newResource_attributes x c =
     (let r = resource_Environment x;
          hostnameSet = scanHostname r False;
          attributes = [attribute_String AttributeTelemetrySDKName ''cfobservability'',
                        attribute_String AttributeTelemetrySDKLanguage ''go'',
                        attribute_String AttributeTelemetrySDKVersion (version x)];
          attributes = (if length (ServiceName c) > 0
                        then attributes @ [attribute_String AttributeServiceName (ServiceName c)]
                        else attributes);
          attributes = (if length (ServiceVersion c) > 0
                        then attributes @ [attribute_String AttributeServiceVersion (ServiceVersion c)]
                        else attributes);
          (hostnameSet, attributes) =
             appendResourceAttributes (resourceAttributes c) (hostnameSet, attributes);
          attributes = (if \<not> hostnameSet
                        then (case os_Hostname x of
                                Inl err \<Rightarrow> attributes
                              | Inr hostname \<Rightarrow>
                                  attributes @ [attribute_String AttributeHostName hostname])
                        else attributes)
      in r @ attributes)"

definition newResource :: "externals \<Rightarrow> Config \<Rightarrow> resource" where
  "newResource x c = resource_New x (context_cfg c) SchemaURL (newResource_attributes x c)"

section \<open>Validation\<close>

text \<open>
  The loop of lines 49 to 56: it stops at the first attribute whose key is the service
  name, whatever its value.
\<close>

fun scanServiceName :: "KeyValue list \<Rightarrow> bool" where
  "scanServiceName [] = False"
| "scanServiceName (kv # kvs) =
     (if Key kv = AttributeServiceName
      then (if length (Value kv) > 0 then True else False)
      else scanServiceName kvs)"

definition validateConfiguration :: "Config \<Rightarrow> error option" where
  "validateConfiguration c =
     (if length (ServiceName c) = 0
      then (let serviceNameSet = scanServiceName (Attributes (Resource c))
            in if \<not> serviceNameSet
               then Some (Error ''invalid configuration: service name missing. Configure WithServiceName in code'')
               else None)
      else None)"

section \<open>Options and configuration loading\<close>

text \<open>
  An \<^verbatim>\<open>Option\<close> is a \<^verbatim>\<open>func(*Config)\<close>: a function from the struct to the
  updated struct.  \<^verbatim>\<open>WithMetricReportingPeriod\<close>, which renders a duration with
  \<^verbatim>\<open>fmt.Sprint\<close>, is left out.
\<close>

type_synonym Option = "Config \<Rightarrow> Config"

definition WithMetricExporterEndpoint :: "string \<Rightarrow> Option" where
  "WithMetricExporterEndpoint url c = c\<lparr>MetricExporterEndpoint := url\<rparr>"

definition WithSpanExporterEndpoint :: "string \<Rightarrow> Option" where
  "WithSpanExporterEndpoint url c = c\<lparr>SpanExporterEndpoint := url\<rparr>"

definition WithServiceName :: "string \<Rightarrow> Option" where
  "WithServiceName name c = c\<lparr>ServiceName := name\<rparr>"

definition WithServiceVersion :: "string \<Rightarrow> Option" where
  "WithServiceVersion v c = c\<lparr>ServiceVersion := v\<rparr>"

definition WithHeaders :: "(string \<rightharpoonup> string) \<Rightarrow> Option" where
  "WithHeaders hs c =
     c\<lparr>Headers := Some ((case Headers c of None \<Rightarrow> Map.empty | Some h \<Rightarrow> h) ++ hs)\<rparr>"

definition WithLogLevel :: "string \<Rightarrow> Option" where
  "WithLogLevel loglevel c = c\<lparr>LogLevel := loglevel\<rparr>"

definition WithSpanExporterInsecure :: "bool \<Rightarrow> Option" where
  "WithSpanExporterInsecure insecure c = c\<lparr>SpanExporterEndpointInsecure := insecure\<rparr>"

definition WithMetricExporterInsecure :: "bool \<Rightarrow> Option" where
  "WithMetricExporterInsecure insecure c = c\<lparr>MetricExporterEndpointInsecure := insecure\<rparr>"

definition WithResourceAttributes :: "(string \<times> string) list \<Rightarrow> Option" where
  "WithResourceAttributes attributes c = c\<lparr>resourceAttributes := attributes\<rparr>"

definition WithPropagators :: "string list \<Rightarrow> Option" where
  "WithPropagators propagators c = c\<lparr>Propagators := propagators\<rparr>"

definition WithErrorHandler :: "errorHandler option \<Rightarrow> Option" where
  "WithErrorHandler handler c = c\<lparr>errorHandler := handler\<rparr>"

definition WithMetricsEnabled :: "bool \<Rightarrow> Option" where
  "WithMetricsEnabled enabled c = c\<lparr>MetricsEnabled := enabled\<rparr>"

definition WithBatchTimeout :: "int \<Rightarrow> Option" where
  "WithBatchTimeout timeout c = c\<lparr>BatchTimeout := timeout\<rparr>"

definition WithContext :: "ctx \<Rightarrow> Option" where
  "WithContext ctx c = c\<lparr>context_cfg := ctx\<rparr>"

text \<open>
  The zero value of \<^verbatim>\<open>Config\<close>.  The nil Resource has no attributes; the nil
  context is written \<open>Background\<close>, and \<^verbatim>\<open>newConfig\<close> overwrites both before
  anything reads them.
\<close>

definition zeroConfig :: Config where
  "zeroConfig =
     \<lparr>SpanExporterEndpoint = [], SpanExporterEndpointInsecure = False, ServiceName = [],
      ServiceVersion = [], Headers = None, MetricExporterEndpoint = [],
      MetricExporterEndpointInsecure = False, MetricsEnabled = False, LogLevel = [],
      Propagators = [], MetricReportingPeriod = [], BatchTimeout = 0,
      resourceAttributes = [], Resource = \<lparr>schemaURL = [], Attributes = []\<rparr>,
      errorHandler = None, context_cfg = Background\<rparr>"

definition Second :: int where
  "Second = 1000000000"

text \<open>The loop of lines 198 to 200.\<close>

fun applyOptions :: "Option list \<Rightarrow> Config \<Rightarrow> Config" where
  "applyOptions [] c = c"
| "applyOptions (opt # opts) c = applyOptions opts (opt c)"

text \<open>
  \<^verbatim>\<open>newConfig\<close>: the Resource is built before the error of the environment is
  looked at; that error is fatal.
\<close>

definition newConfig :: "externals \<Rightarrow> Option list \<Rightarrow> fatal + Config" where
  "newConfig x opts =
     (let (c, envError) = envconfig_Process x zeroConfig;
          c = c\<lparr>BatchTimeout := 5 * Second\<rparr>;
          c = c\<lparr>context_cfg := Background\<rparr>;
          c = c\<lparr>errorHandler := Some DefaultHandler\<rparr>;
          defaultOpts = [];
          c = applyOptions (defaultOpts @ opts) c;
          c = c\<lparr>Resource := newResource x c\<rparr>
      in case envError of
           Some e \<Rightarrow> Inl (Fatal (Error_msg e))
         | None \<Rightarrow> Inr c)"

section \<open>The trace pipeline\<close>

definition propagatorsMap :: "string \<rightharpoonup> propagator" where
  "propagatorsMap =
     map_of [(''b3'', B3_MultipleHeader), (''baggage'', Baggage),
             (''tracecontext'', TraceContext), (''ottrace'', OT)]"

text \<open>The loop of lines 68 to 73; every value of the table is non-nil.\<close>

fun collectPropagators :: "string list \<Rightarrow> propagator list \<Rightarrow> propagator list" where
  "collectPropagators [] props = props"
| "collectPropagators (key # keys) props =
     (case propagatorsMap key of
        Some prop \<Rightarrow> collectPropagators keys (props @ [prop])
      | None \<Rightarrow> collectPropagators keys props)"

definition configurePropagators :: "PipelineConfig \<Rightarrow> world \<Rightarrow> error option \<times> world" where
  "configurePropagators c w =
     (let props = collectPropagators (Propagators_p c) []
      in if length props = 0
         then (Some (Error ''invalid configuration: unsupported propagators. Supported options: b3,baggage,tracecontext,ottrace''), w)
         else (None, w\<lparr>textMapPropagator_g := Some props\<rparr>))"

definition newTraceExporter ::
  "externals \<Rightarrow> ctx \<Rightarrow> string \<Rightarrow> bool \<Rightarrow> (string \<rightharpoonup> string) option \<Rightarrow> error + exporter" where
  "newTraceExporter x ctx ep insecure hs =
     (let secureOption = WithTLSCredentials;
          secureOption = (if insecure then WithInsecure else secureOption);
          client = \<lparr>secure = secureOption, endpoint = ep, headers = hs, compressor = ''gzip''\<rparr>
      in case otlptrace_New x ctx client of
           Some err \<Rightarrow> Inl err
         | None \<Rightarrow> Inr (Exporter client))"

text \<open>
  A \<^verbatim>\<open>Shutdown\<close> method of the SDK: the call is recorded and its result is the
  SDK's.
\<close>

definition method_Shutdown :: "externals \<Rightarrow> call \<Rightarrow> world \<Rightarrow> error option \<times> world" where
  "method_Shutdown x cl w = (sdk_Shutdown x (calls w) cl, w\<lparr>calls := calls w @ [cl]\<rparr>)"

text \<open>The closure of lines 37 to 40, with the variables it captures.\<close>

definition traceShutdown :: "externals \<Rightarrow> batchSpanProcessor \<Rightarrow> exporter \<Rightarrow> shutdownFunc" where
  "traceShutdown x bsp spanExporter ctx w =
     (let (_, w) = method_Shutdown x (BspShutdown bsp ctx) w
      in method_Shutdown x (ExporterShutdown spanExporter ctx) w)"

definition NewTracePipeline ::
  "externals \<Rightarrow> ctx \<Rightarrow> PipelineConfig \<Rightarrow> world \<Rightarrow> setupResult \<times> world" where
  "NewTracePipeline x ctx c w =
     (case newTraceExporter x ctx (Endpoint_p c) (Insecure_p c) (Headers_p c) of
        Inl err \<Rightarrow>
          ((None, Some (Error (''failed to create span exporter: '' @ Error_msg err))), w)
      | Inr spanExporter \<Rightarrow>
          (let bsp = BatchSpanProcessor spanExporter (BatchTimeout_p c);
               tp = \<lparr>tp_sampler = AlwaysSample, tp_spanProcessor = bsp,
                     tp_resource = Resource_p c\<rparr>
           in case configurePropagators c w of
                (Some err, w) \<Rightarrow> ((None, Some err), w)
              | (None, w) \<Rightarrow>
                  (let w = w\<lparr>tracerProvider_g := Some tp\<rparr>
                   in ((Some (traceShutdown x bsp spanExporter), None), w))))"

section \<open>The launcher\<close>

definition setupTracing :: "externals \<Rightarrow> Config \<Rightarrow> world \<Rightarrow> setupResult \<times> world" where
  "setupTracing x c w =
     (if SpanExporterEndpoint c = []
      then ((None, None), w)
      else NewTracePipeline x (context_cfg c)
             \<lparr>Endpoint_p = SpanExporterEndpoint c,
              Insecure_p = SpanExporterEndpointInsecure c,
              Headers_p = Headers c,
              Resource_p = Resource c,
              ReportingPeriod_p = [],
              BatchTimeout_p = BatchTimeout c,
              Propagators_p = Propagators c\<rparr> w)"

definition setupMetrics :: "externals \<Rightarrow> Config \<Rightarrow> world \<Rightarrow> setupResult \<times> world" where
  "setupMetrics x c w =
     (if \<not> MetricsEnabled c
      then ((None, None), w)
      else NewMetricsPipeline x (context_cfg c)
             \<lparr>Endpoint_p = MetricExporterEndpoint c,
              Insecure_p = MetricExporterEndpointInsecure c,
              Headers_p = Headers c,
              Resource_p = Resource c,
              ReportingPeriod_p = MetricReportingPeriod c,
              BatchTimeout_p = BatchTimeout c,
              Propagators_p = []\<rparr> w)"

type_synonym setupFunc = "externals \<Rightarrow> Config \<Rightarrow> world \<Rightarrow> setupResult \<times> world"

text \<open>
  The loop of lines 328 to 337.  A setup error is fatal: the process exits there, and
  the \<^verbatim>\<open>continue\<close> after it is not reached.
\<close>

fun runSetups ::
  "externals \<Rightarrow> Config \<Rightarrow> setupFunc list \<Rightarrow> Launcher \<Rightarrow> world \<Rightarrow> (fatal + Launcher) \<times> world" where
  "runSetups x c [] ls w = (Inr ls, w)"
| "runSetups x c (setup # setups) ls w =
     (case setup x c w of
        ((shutdown, Some err), w) \<Rightarrow> (Inl (Fatal (''setup error: '' @ Error_msg err)), w)
      | ((Some shutdown, None), w) \<Rightarrow>
          runSetups x c setups (ls\<lparr>shutdownFuncs := shutdownFuncs ls @ [shutdown]\<rparr>) w
      | ((None, None), w) \<Rightarrow> runSetups x c setups ls w)"

text \<open>Lines 311 to 313: a nil header map becomes the empty map.\<close>

definition defaultHeaders :: "Config \<Rightarrow> Config" where
  "defaultHeaders c = (if Headers c = None then c\<lparr>Headers := Some Map.empty\<rparr> else c)"

text \<open>Lines 320 to 322: a non-nil error handler is installed process-wide.\<close>

definition installErrorHandler :: "Config \<Rightarrow> world \<Rightarrow> world" where
  "installErrorHandler c w =
     (case errorHandler c of
        Some h \<Rightarrow> w\<lparr>errorHandler_g := Some h\<rparr>
      | None \<Rightarrow> w)"

definition ConfigureOpentelemetry ::
  "externals \<Rightarrow> Option list \<Rightarrow> world \<Rightarrow> (fatal + Launcher) \<times> world" where
  "ConfigureOpentelemetry x opts w =
     (case newConfig x opts of
        Inl f \<Rightarrow> (Inl f, w)
      | Inr c \<Rightarrow>
          (let c = defaultHeaders c
           in case validateConfiguration c of
                Some err \<Rightarrow> (Inl (Fatal (''configuration error: '' @ Error_msg err)), w)
              | None \<Rightarrow>
                  (let w = installErrorHandler c w;
                       ls = \<lparr>config = c, shutdownFuncs = []\<rparr>
                   in runSetups x c [setupTracing, setupMetrics] ls w)))"

text \<open>
  The loop of \<^verbatim>\<open>ShutdownContext\<close>.  The receiver is a value and the loop only reads
  the list: the Launcher is the same after the call.  A callback error is fatal, and the
  callbacks after it are not called.
\<close>

fun runShutdowns :: "shutdownFunc list \<Rightarrow> ctx \<Rightarrow> world \<Rightarrow> fatal option \<times> world" where
  "runShutdowns [] ctx w = (None, w)"
| "runShutdowns (shutdown # shutdowns) ctx w =
     (case shutdown ctx w of
        (Some err, w) \<Rightarrow> (Some (Fatal (''failed to stop exporter: '' @ Error_msg err)), w)
      | (None, w) \<Rightarrow> runShutdowns shutdowns ctx w)"

definition ShutdownContext :: "Launcher \<Rightarrow> ctx \<Rightarrow> world \<Rightarrow> fatal option \<times> world" where
  "ShutdownContext ls ctx w = runShutdowns (shutdownFuncs ls) ctx w"

definition Shutdown :: "Launcher \<Rightarrow> world \<Rightarrow> fatal option \<times> world" where
  "Shutdown ls w = ShutdownContext ls Background w"

section \<open>An environment for the examples\<close>

text \<open>
  A Resource constructor that keeps, for every key, the attribute given last.
\<close>

fun lastWins :: "KeyValue list \<Rightarrow> KeyValue list" where
  "lastWins [] = []"
| "lastWins (a # as) = (if Key a \<in> Key ` set as then lastWins as else a # lastWins as)"

text \<open>
  A metrics pipeline constructor that always succeeds; its callback shuts down an
  exporter for the endpoint it was given.
\<close>

definition demo_NewMetricsPipeline :: "ctx \<Rightarrow> PipelineConfig \<Rightarrow> world \<Rightarrow> setupResult \<times> world" where
  "demo_NewMetricsPipeline ctx0 pc w =
     ((Some (\<lambda>ctx v. (None, v\<lparr>calls := calls v @
          [ExporterShutdown
             (Exporter \<lparr>secure = (if Insecure_p pc then WithInsecure else WithTLSCredentials),
                        endpoint = Endpoint_p pc, headers = Headers_p pc,
                        compressor = ''gzip''\<rparr>) ctx]\<rparr>)),
       None), w)"

text \<open>
  The environment sets the documented defaults, the host has a name, and every SDK call
  succeeds.
\<close>

definition demo_externals :: externals where
  "demo_externals =
     \<lparr>envconfig_Process =
        (\<lambda>c. (c\<lparr>SpanExporterEndpoint := ''ingest.commonfate.io:443'',
                  MetricExporterEndpoint := ''ingest.commonfate.io:443'',
                  MetricsEnabled := True, LogLevel := ''info'', Propagators := [''b3''],
                  MetricReportingPeriod := ''30s''\<rparr>, None)),
      resource_Environment = [],
      os_Hostname = Inr ''host-1'',
      version = ''1.0.0'',
      resource_New = (\<lambda>ctx url as. \<lparr>schemaURL = url, Attributes = lastWins as\<rparr>),
      otlptrace_New = (\<lambda>ctx client. None),
      sdk_Shutdown = (\<lambda>before cl. None),
      NewMetricsPipeline = demo_NewMetricsPipeline\<rparr>"

text \<open>An SDK whose batch processor fails to shut down and whose exporter fails too.\<close>

definition demo_failing_Shutdown :: "call list \<Rightarrow> call \<Rightarrow> error option" where
  "demo_failing_Shutdown before cl =
     (case cl of
        BspShutdown bsp ctx \<Rightarrow> Some (Error ''processor: context deadline exceeded'')
      | ExporterShutdown e ctx \<Rightarrow> Some (Error ''exporter: connection closed''))"

definition world0 :: world where
  "world0 = \<lparr>tracerProvider_g = None, textMapPropagator_g = None, errorHandler_g = None,
             calls = []\<rparr>"

definition demo_PipelineConfig :: PipelineConfig where
  "demo_PipelineConfig =
     \<lparr>Endpoint_p = ''ingest.commonfate.io:443'', Insecure_p = False, Headers_p = Some Map.empty,
      Resource_p = \<lparr>schemaURL = SchemaURL, Attributes = []\<rparr>, ReportingPeriod_p = [],
      BatchTimeout_p = 5 * Second, Propagators_p = [''b3'']\<rparr>"

definition demo_Exporter :: exporter where
  "demo_Exporter =
     Exporter \<lparr>secure = WithTLSCredentials, endpoint = ''ingest.commonfate.io:443'',
               headers = Some Map.empty, compressor = ''gzip''\<rparr>"

definition demo_Bsp :: batchSpanProcessor where
  "demo_Bsp = BatchSpanProcessor demo_Exporter (5 * Second)"

text \<open>The Launcher of a process that exports traces only.\<close>

definition demo_Launcher :: Launcher where
  "demo_Launcher =
     (case fst (ConfigureOpentelemetry demo_externals
                  [WithServiceName ''svc'', WithMetricsEnabled False] world0) of
        Inr ls \<Rightarrow> ls
      | Inl f \<Rightarrow> \<lparr>config = zeroConfig, shutdownFuncs = []\<rparr>)"

section \<open>The resource builder: order of the attributes\<close>

lemma scanHostname_eq:
  "scanHostname as hs = (hs \<or> (\<exists>a\<in>set as. Key a = AttributeHostName \<and> Value a \<noteq> []))"
  by (induction as arbitrary: hs) auto

lemma appendResourceAttributes_eq:
  "appendResourceAttributes ras (hs, attrs) =
     (hs \<or> (\<exists>(k, v)\<in>set ras. k = AttributeHostName \<and> v \<noteq> []),
      attrs @ map (\<lambda>(k, v). attribute_String k v) (filter (\<lambda>(k, v). v \<noteq> []) ras))"
  by (induction ras arbitrary: hs attrs) auto

text \<open>
  Claim C8.  For every configuration the attribute list that \<^verbatim>\<open>newResource\<close> hands to
  the Resource constructor is an ordered concatenation and nothing is dropped from it:
  the attributes of the environment; the SDK name, language and version; the service
  name and the service version when their fields are non-empty; every resource
  attribute of the caller that has a non-empty value, in the order of the iteration;
  and the detected host name when no host name was set before and the detection
  succeeded.
\<close>

theorem C8_attributes_concatenation:
  "newResource_attributes x c =
     resource_Environment x
     @ [attribute_String AttributeTelemetrySDKName ''cfobservability'',
        attribute_String AttributeTelemetrySDKLanguage ''go'',
        attribute_String AttributeTelemetrySDKVersion (version x)]
     @ (if ServiceName c \<noteq> [] then [attribute_String AttributeServiceName (ServiceName c)] else [])
     @ (if ServiceVersion c \<noteq> []
        then [attribute_String AttributeServiceVersion (ServiceVersion c)] else [])
     @ map (\<lambda>(k, v). attribute_String k v) (filter (\<lambda>(k, v). v \<noteq> []) (resourceAttributes c))
     @ (case os_Hostname x of
          Inl err \<Rightarrow> []
        | Inr hostname \<Rightarrow>
            if (\<exists>a\<in>set (resource_Environment x). Key a = AttributeHostName \<and> Value a \<noteq> [])
               \<or> (\<exists>(k, v)\<in>set (resourceAttributes c). k = AttributeHostName \<and> v \<noteq> [])
            then [] else [attribute_String AttributeHostName hostname])
   \<and> newResource x c = resource_New x (context_cfg c) SchemaURL (newResource_attributes x c)"
  by (simp add: newResource_attributes_def newResource_def Let_def scanHostname_eq
      appendResourceAttributes_eq split: sum.splits)

text \<open>
  An instance with the service name given three times (environment, explicit field,
  caller attribute): all three stay in the list, in this order; the caller attribute
  with the empty value is left out and the detected host name comes last.
\<close>

theorem C8_attributes_concatenation_witness:
  "newResource_attributes
     (demo_externals\<lparr>resource_Environment := [attribute_String ''service.name'' ''from-env'']\<rparr>)
     (zeroConfig\<lparr>ServiceName := ''svc'',
                 resourceAttributes := [(''service.name'', ''from-caller''), (''team'', '''')]\<rparr>)
   = [attribute_String ''service.name'' ''from-env'',
      attribute_String ''telemetry.sdk.name'' ''cfobservability'',
      attribute_String ''telemetry.sdk.language'' ''go'',
      attribute_String ''telemetry.sdk.version'' ''1.0.0'',
      attribute_String ''service.name'' ''svc'',
      attribute_String ''service.name'' ''from-caller'',
      attribute_String ''host.name'' ''host-1'']"
  using C8_attributes_concatenation
    [of "demo_externals\<lparr>resource_Environment := [attribute_String ''service.name'' ''from-env'']\<rparr>"
        "zeroConfig\<lparr>ServiceName := ''svc'',
                    resourceAttributes := [(''service.name'', ''from-caller''), (''team'', '''')]\<rparr>"]
  by (simp add: demo_externals_def zeroConfig_def attribute_String_def AttributeHostName_def
      AttributeServiceName_def AttributeServiceVersion_def AttributeTelemetrySDKName_def
      AttributeTelemetrySDKLanguage_def AttributeTelemetrySDKVersion_def)

section \<open>The resource builder: a host name given by the caller\<close>

lemma newResource_attributes_hostname_given:
  assumes "(AttributeHostName, v) \<in> set (resourceAttributes c)" and "v \<noteq> []"
  shows "newResource_attributes x c =
     resource_Environment x
     @ [attribute_String AttributeTelemetrySDKName ''cfobservability'',
        attribute_String AttributeTelemetrySDKLanguage ''go'',
        attribute_String AttributeTelemetrySDKVersion (version x)]
     @ (if ServiceName c \<noteq> [] then [attribute_String AttributeServiceName (ServiceName c)] else [])
     @ (if ServiceVersion c \<noteq> []
        then [attribute_String AttributeServiceVersion (ServiceVersion c)] else [])
     @ map (\<lambda>(k, v). attribute_String k v) (filter (\<lambda>(k, v). v \<noteq> []) (resourceAttributes c))"
proof -
  from assms have "\<exists>(k, v)\<in>set (resourceAttributes c). k = AttributeHostName \<and> v \<noteq> []"
    by blast
  then show ?thesis
    by (simp add: newResource_attributes_def Let_def scanHostname_eq appendResourceAttributes_eq)
qed

lemma filter_key_distinct:
  "distinct (map fst ras) \<Longrightarrow> (k, v) \<in> set ras \<Longrightarrow> filter (\<lambda>p. fst p = k) ras = [(k, v)]"
proof (induction ras)
  case Nil
  then show ?case by simp
next
  case (Cons p ras)
  show ?case
  proof (cases "p = (k, v)")
    case True
    with Cons.prems have "k \<notin> fst ` set ras" by simp
    then have "filter (\<lambda>p. fst p = k) ras = []"
      by (auto simp: filter_empty_conv)
    with True show ?thesis by simp
  next
    case False
    with Cons.prems have mem: "(k, v) \<in> set ras" and d: "distinct (map fst ras)" by auto
    from mem have "k \<in> fst ` set ras" by force
    with Cons.prems(1) have "fst p \<noteq> k" by auto
    with Cons.IH [OF d mem] show ?thesis by simp
  qed
qed

lemma caller_hostname_once:
  assumes "distinct (map fst ras)" and "(AttributeHostName, v) \<in> set ras" and "v \<noteq> []"
  shows "filter (\<lambda>a. Key a = AttributeHostName)
           (map (\<lambda>(k, v). attribute_String k v) (filter (\<lambda>(k, v). v \<noteq> []) ras))
         = [attribute_String AttributeHostName v]"
proof -
  have "filter (\<lambda>a. Key a = AttributeHostName)
           (map (\<lambda>(k, v). attribute_String k v) (filter (\<lambda>(k, v). v \<noteq> []) ras))
        = map (\<lambda>(k, v). attribute_String k v)
            (filter (\<lambda>(k, v). v \<noteq> []) (filter (\<lambda>p. fst p = AttributeHostName) ras))"
    by (induction ras) (auto simp: attribute_String_def)
  also have "\<dots> = [attribute_String AttributeHostName v]"
    using filter_key_distinct [OF assms(1,2)] assms(3) by simp
  finally show ?thesis .
qed

lemma caller_hostname_last:
  assumes "distinct (map fst ras)" and "(AttributeHostName, v) \<in> set ras" and "v \<noteq> []"
  shows "\<exists>ys zs. map (\<lambda>(k, v). attribute_String k v) (filter (\<lambda>(k, v). v \<noteq> []) ras)
                  = ys @ attribute_String AttributeHostName v # zs
               \<and> (\<forall>a\<in>set zs. Key a \<noteq> AttributeHostName)"
proof -
  let ?f = "filter (\<lambda>(k, v). v \<noteq> []) ras"
  from assms have "(AttributeHostName, v) \<in> set ?f" by simp
  then obtain us vs where split: "?f = us @ (AttributeHostName, v) # vs"
    by (auto dest: split_list)
  from assms(1) have "distinct (map fst ?f)" by (rule distinct_map_filter)
  with split have "AttributeHostName \<notin> fst ` set vs" by simp
  then have "\<forall>a\<in>set (map (\<lambda>(k, v). attribute_String k v) vs). Key a \<noteq> AttributeHostName"
    by (force simp: attribute_String_def)
  moreover have "map (\<lambda>(k, v). attribute_String k v) ?f =
      map (\<lambda>(k, v). attribute_String k v) us @ attribute_String AttributeHostName v
        # map (\<lambda>(k, v). attribute_String k v) vs"
    by (simp add: split)
  ultimately show ?thesis by blast
qed

lemma map_of_last_hostname:
  assumes "\<forall>a\<in>set zs. Key a \<noteq> k"
  shows "map_of (map (\<lambda>a. (Key a, Value a)) (rev (ys @ \<lparr>Key = k, Value = v\<rparr> # zs))) k = Some v"
proof -
  from assms have "map_of (map (\<lambda>a. (Key a, Value a)) (rev zs)) k = None"
    by (auto simp: map_of_eq_None_iff)
  then show ?thesis
    by (simp add: map_of_append map_add_def)
qed

lemma lastWins_lookup:
  "map_of (map (\<lambda>a. (Key a, Value a)) (lastWins as)) k =
   map_of (map (\<lambda>a. (Key a, Value a)) (rev as)) k"
proof (induction as)
  case Nil
  then show ?case by simp
next
  case (Cons a as)
  let ?old = "map_of (map (\<lambda>a. (Key a, Value a)) (rev as)) k"
  have keys: "(?old = None) = (k \<notin> Key ` set as)"
    by (force simp: map_of_eq_None_iff)
  have rev: "map_of (map (\<lambda>a. (Key a, Value a)) (rev (a # as))) k =
    (case ?old of None \<Rightarrow> (if k = Key a then Some (Value a) else None) | Some v \<Rightarrow> Some v)"
    by (auto simp: map_of_append map_add_def split: option.splits)
  show ?case
  proof (cases "Key a \<in> Key ` set as")
    case True
    then have "k = Key a \<Longrightarrow> ?old \<noteq> None" using keys by simp
    with True Cons show ?thesis
      unfolding rev by (cases ?old) auto
  next
    case False
    then have "k = Key a \<Longrightarrow> ?old = None" using keys by simp
    with False Cons show ?thesis
      unfolding rev by (cases ?old) auto
  qed
qed

text \<open>
  Claim C3.  When the resource attributes of the caller (a map: distinct keys) hold
  \<^verbatim>\<open>host.name\<close> with a non-empty value \<open>v\<close>, then
  \<^item> the attribute list is the same whatever \<^verbatim>\<open>os.Hostname\<close> returns, a name or an
    error;
  \<^item> the attributes that the builder adds to those of the environment hold the key
    \<^verbatim>\<open>host.name\<close> exactly once, with the value \<open>v\<close>;
  \<^item> the last \<^verbatim>\<open>host.name\<close> attribute of the whole list is the caller's;
  \<^item> so, when the Resource constructor resolves a key given several times to the value
    given last, the host name of the built Resource is \<open>v\<close>.
\<close>

theorem C3_caller_hostname_suppresses_detection:
  assumes "distinct (map fst (resourceAttributes c))"
    and "(AttributeHostName, v) \<in> set (resourceAttributes c)"
    and "v \<noteq> []"
  shows "newResource_attributes (x\<lparr>os_Hostname := h\<rparr>) c = newResource_attributes x c
    \<and> filter (\<lambda>a. Key a = AttributeHostName)
        (drop (length (resource_Environment x)) (newResource_attributes x c))
      = [attribute_String AttributeHostName v]
    \<and> (\<exists>pre post. newResource_attributes x c = pre @ attribute_String AttributeHostName v # post
          \<and> (\<forall>a\<in>set post. Key a \<noteq> AttributeHostName))
    \<and> ((\<forall>as. map_of (map (\<lambda>a. (Key a, Value a))
                 (Attributes (resource_New x (context_cfg c) SchemaURL as))) AttributeHostName
              = map_of (map (\<lambda>a. (Key a, Value a)) (rev as)) AttributeHostName)
        \<longrightarrow> map_of (map (\<lambda>a. (Key a, Value a)) (Attributes (newResource x c))) AttributeHostName
              = Some v)"
proof -
  note eq = newResource_attributes_hostname_given [OF assms(2,3)]
  have indep: "newResource_attributes (x\<lparr>os_Hostname := h\<rparr>) c = newResource_attributes x c"
    by (simp add: eq [of x] eq [of "x\<lparr>os_Hostname := h\<rparr>"])
  have once: "filter (\<lambda>a. Key a = AttributeHostName)
        (drop (length (resource_Environment x)) (newResource_attributes x c))
      = [attribute_String AttributeHostName v]"
    by (simp add: eq [of x] caller_hostname_once [OF assms])
       (simp add: attribute_String_def AttributeHostName_def AttributeTelemetrySDKName_def
          AttributeTelemetrySDKLanguage_def AttributeTelemetrySDKVersion_def
          AttributeServiceName_def AttributeServiceVersion_def)
  from caller_hostname_last [OF assms] obtain ys zs
    where split: "map (\<lambda>(k, v). attribute_String k v)
                    (filter (\<lambda>(k, v). v \<noteq> []) (resourceAttributes c))
                  = ys @ attribute_String AttributeHostName v # zs"
      and zs: "\<forall>a\<in>set zs. Key a \<noteq> AttributeHostName"
    by blast
  have "\<exists>pre. newResource_attributes x c = pre @ attribute_String AttributeHostName v # zs"
    unfolding eq [of x] split
    by (metis append.assoc)
  then obtain pre
    where last: "newResource_attributes x c = pre @ attribute_String AttributeHostName v # zs"
    by blast
  with zs have ex: "\<exists>pre post. newResource_attributes x c
        = pre @ attribute_String AttributeHostName v # post
      \<and> (\<forall>a\<in>set post. Key a \<noteq> AttributeHostName)"
    by blast
  have sdk: "(\<forall>as. map_of (map (\<lambda>a. (Key a, Value a))
                 (Attributes (resource_New x (context_cfg c) SchemaURL as))) AttributeHostName
              = map_of (map (\<lambda>a. (Key a, Value a)) (rev as)) AttributeHostName)
        \<longrightarrow> map_of (map (\<lambda>a. (Key a, Value a)) (Attributes (newResource x c))) AttributeHostName
              = Some v"
  proof
    assume "\<forall>as. map_of (map (\<lambda>a. (Key a, Value a))
                 (Attributes (resource_New x (context_cfg c) SchemaURL as))) AttributeHostName
              = map_of (map (\<lambda>a. (Key a, Value a)) (rev as)) AttributeHostName"
    then show "map_of (map (\<lambda>a. (Key a, Value a)) (Attributes (newResource x c)))
                 AttributeHostName = Some v"
      using map_of_last_hostname [OF zs, of pre v]
      by (simp add: newResource_def last attribute_String_def)
  qed
  from indep once ex sdk show ?thesis by blast
qed

text \<open>
  An instance: the environment names the host too, the caller overrides it with
  \<^verbatim>\<open>X\<close>, and the detection fails or succeeds.
\<close>

theorem C3_caller_hostname_suppresses_detection_witness:
  "newResource_attributes
     (demo_externals\<lparr>resource_Environment := [attribute_String ''host.name'' ''env-host'']\<rparr>
        \<lparr>os_Hostname := Inl (Error ''hostname: not available'')\<rparr>)
     (zeroConfig\<lparr>resourceAttributes := [(''team'', ''obs''), (''host.name'', ''X'')]\<rparr>)
   = newResource_attributes
     (demo_externals\<lparr>resource_Environment := [attribute_String ''host.name'' ''env-host'']\<rparr>)
     (zeroConfig\<lparr>resourceAttributes := [(''team'', ''obs''), (''host.name'', ''X'')]\<rparr>)
   \<and> filter (\<lambda>a. Key a = ''host.name'')
       (drop 1 (newResource_attributes
          (demo_externals\<lparr>resource_Environment := [attribute_String ''host.name'' ''env-host'']\<rparr>)
          (zeroConfig\<lparr>resourceAttributes := [(''team'', ''obs''), (''host.name'', ''X'')]\<rparr>)))
     = [attribute_String ''host.name'' ''X'']
   \<and> map_of (map (\<lambda>a. (Key a, Value a))
        (Attributes (newResource
          (demo_externals\<lparr>resource_Environment := [attribute_String ''host.name'' ''env-host'']\<rparr>)
          (zeroConfig\<lparr>resourceAttributes := [(''team'', ''obs''), (''host.name'', ''X'')]\<rparr>))))
        ''host.name''
     = Some ''X''"
proof -
  let ?x = "demo_externals\<lparr>resource_Environment := [attribute_String ''host.name'' ''env-host'']\<rparr>"
  let ?c = "zeroConfig\<lparr>resourceAttributes := [(''team'', ''obs''), (''host.name'', ''X'')]\<rparr>"
  have d: "distinct (map fst (resourceAttributes ?c))"
    by simp
  have m: "(AttributeHostName, ''X'') \<in> set (resourceAttributes ?c)"
    by (simp add: AttributeHostName_def)
  have n: "''X'' \<noteq> []"
    by simp
  have sdk: "\<forall>as. map_of (map (\<lambda>a. (Key a, Value a))
                 (Attributes (resource_New ?x (context_cfg ?c) SchemaURL as))) AttributeHostName
              = map_of (map (\<lambda>a. (Key a, Value a)) (rev as)) AttributeHostName"
    by (simp add: demo_externals_def lastWins_lookup)
  have len: "length (resource_Environment ?x) = 1"
    by simp
  from C3_caller_hostname_suppresses_detection
         [OF d m n, where x = ?x and h = "Inl (Error ''hostname: not available'')"] sdk
  show ?thesis
    unfolding len by (simp add: AttributeHostName_def)
qed

section \<open>Validation of the service name\<close>

lemma scanServiceName_sound:
  "scanServiceName kvs \<Longrightarrow> \<exists>kv\<in>set kvs. Key kv = AttributeServiceName \<and> Value kv \<noteq> []"
  by (induction kvs) (auto split: if_splits)

lemma scanServiceName_complete:
  "distinct (map Key kvs) \<Longrightarrow> kv \<in> set kvs \<Longrightarrow> Key kv = AttributeServiceName \<Longrightarrow>
   Value kv \<noteq> [] \<Longrightarrow> scanServiceName kvs"
  by (induction kvs) force+

text \<open>
  Claim C5.  The attributes of a Resource have distinct keys (it is an attribute set).
  For every configuration with such a Resource: when the field \<^verbatim>\<open>ServiceName\<close> is
  empty and the Resource has no service-name attribute with a non-empty value,
  \<^verbatim>\<open>validateConfiguration\<close> returns the configuration error; when the field is
  non-empty, or the Resource has a service-name attribute with a non-empty value, it
  returns no error.
\<close>

theorem C5_validate_service_name:
  assumes "distinct (map Key (Attributes (Resource c)))"
  shows "(ServiceName c = []
          \<and> (\<forall>kv\<in>set (Attributes (Resource c)). Key kv = AttributeServiceName \<longrightarrow> Value kv = [])
          \<longrightarrow> validateConfiguration c =
                Some (Error ''invalid configuration: service name missing. Configure WithServiceName in code''))
       \<and> (ServiceName c \<noteq> []
          \<or> (\<exists>kv\<in>set (Attributes (Resource c)). Key kv = AttributeServiceName \<and> Value kv \<noteq> [])
          \<longrightarrow> validateConfiguration c = None)"
proof (intro conjI impI)
  assume "ServiceName c = []
    \<and> (\<forall>kv\<in>set (Attributes (Resource c)). Key kv = AttributeServiceName \<longrightarrow> Value kv = [])"
  then show "validateConfiguration c =
      Some (Error ''invalid configuration: service name missing. Configure WithServiceName in code'')"
    using scanServiceName_sound [of "Attributes (Resource c)"]
    by (auto simp: validateConfiguration_def)
next
  assume "ServiceName c \<noteq> []
    \<or> (\<exists>kv\<in>set (Attributes (Resource c)). Key kv = AttributeServiceName \<and> Value kv \<noteq> [])"
  then show "validateConfiguration c = None"
    using scanServiceName_complete [OF assms]
    by (auto simp: validateConfiguration_def)
qed

text \<open>
  Three instances: no service name anywhere; a service name in the Resource only,
  behind another attribute; a service name in the field only.
\<close>

theorem C5_validate_service_name_witness:
  "validateConfiguration
     (zeroConfig\<lparr>Resource := \<lparr>schemaURL = SchemaURL,
                               Attributes = [attribute_String ''host.name'' ''h'']\<rparr>\<rparr>)
   = Some (Error ''invalid configuration: service name missing. Configure WithServiceName in code'')
   \<and> validateConfiguration
     (zeroConfig\<lparr>Resource := \<lparr>schemaURL = SchemaURL,
                               Attributes = [attribute_String ''host.name'' ''h'',
                                             attribute_String ''service.name'' ''svc'']\<rparr>\<rparr>)
   = None
   \<and> validateConfiguration (zeroConfig\<lparr>ServiceName := ''svc''\<rparr>) = None"
proof -
  let ?c1 = "zeroConfig\<lparr>Resource := \<lparr>schemaURL = SchemaURL,
                                      Attributes = [attribute_String ''host.name'' ''h'']\<rparr>\<rparr>"
  let ?c2 = "zeroConfig\<lparr>Resource := \<lparr>schemaURL = SchemaURL,
                                      Attributes = [attribute_String ''host.name'' ''h'',
                                                    attribute_String ''service.name'' ''svc'']\<rparr>\<rparr>"
  let ?c3 = "zeroConfig\<lparr>ServiceName := ''svc''\<rparr>"
  have d1: "distinct (map Key (Attributes (Resource ?c1)))"
    by simp
  have d2: "distinct (map Key (Attributes (Resource ?c2)))"
    by (simp add: attribute_String_def)
  have d3: "distinct (map Key (Attributes (Resource ?c3)))"
    by (simp add: zeroConfig_def)
  from C5_validate_service_name [OF d1] C5_validate_service_name [OF d2]
    C5_validate_service_name [OF d3]
  show ?thesis
    by (simp add: zeroConfig_def attribute_String_def AttributeServiceName_def)
qed

section \<open>Propagators\<close>

lemma collectPropagators_eq:
  "collectPropagators keys props = props @ List.map_filter propagatorsMap keys"
  by (induction keys arbitrary: props) (auto simp: List.map_filter_simps split: option.splits)

lemma propagatorsMap_None:
  "k \<notin> {''b3'', ''baggage'', ''tracecontext'', ''ottrace''} \<Longrightarrow> propagatorsMap k = None"
  by (simp add: propagatorsMap_def)

lemma map_filter_unsupported:
  "\<forall>k\<in>set keys. propagatorsMap k = None \<Longrightarrow> List.map_filter propagatorsMap keys = []"
  by (induction keys) (auto simp: List.map_filter_simps)

text \<open>
  Claim C4.  \<^verbatim>\<open>configurePropagators\<close> skips a key that is not in its table:
  \<^item> for the list \<^verbatim>\<open>["b3", "unknown-key"]\<close> it returns no error and installs the
    composition of B3 alone;
  \<^item> for every list none of whose keys is one of \<^verbatim>\<open>b3\<close>, \<^verbatim>\<open>baggage\<close>,
    \<^verbatim>\<open>tracecontext\<close>, \<^verbatim>\<open>ottrace\<close> (the empty list too) it returns the error that
    names these four keys, and installs nothing;
  \<^item> for every other list it returns no error and installs the propagators of the
    supported keys, in the order of the list.
\<close>

theorem C4_unknown_propagators_skipped:
  "configurePropagators (c\<lparr>Propagators_p := [''b3'', ''unknown-key'']\<rparr>) w =
     (None, w\<lparr>textMapPropagator_g := Some [B3_MultipleHeader]\<rparr>)
   \<and> ((\<forall>k\<in>set (Propagators_p c). k \<notin> {''b3'', ''baggage'', ''tracecontext'', ''ottrace''})
        \<longrightarrow> configurePropagators c w =
             (Some (Error ''invalid configuration: unsupported propagators. Supported options: b3,baggage,tracecontext,ottrace''), w))
   \<and> (List.map_filter propagatorsMap (Propagators_p c) \<noteq> []
        \<longrightarrow> configurePropagators c w =
             (None, w\<lparr>textMapPropagator_g := Some (List.map_filter propagatorsMap (Propagators_p c))\<rparr>))"
proof (intro conjI impI)
  show "configurePropagators (c\<lparr>Propagators_p := [''b3'', ''unknown-key'']\<rparr>) w =
     (None, w\<lparr>textMapPropagator_g := Some [B3_MultipleHeader]\<rparr>)"
    by (simp add: configurePropagators_def propagatorsMap_def)
next
  assume "\<forall>k\<in>set (Propagators_p c). k \<notin> {''b3'', ''baggage'', ''tracecontext'', ''ottrace''}"
  then have "\<forall>k\<in>set (Propagators_p c). propagatorsMap k = None"
    using propagatorsMap_None by blast
  then show "configurePropagators c w =
      (Some (Error ''invalid configuration: unsupported propagators. Supported options: b3,baggage,tracecontext,ottrace''), w)"
    by (simp add: configurePropagators_def collectPropagators_eq map_filter_unsupported)
next
  assume "List.map_filter propagatorsMap (Propagators_p c) \<noteq> []"
  then show "configurePropagators c w =
      (None, w\<lparr>textMapPropagator_g := Some (List.map_filter propagatorsMap (Propagators_p c))\<rparr>)"
    by (simp add: configurePropagators_def collectPropagators_eq)
qed

text \<open>
  Instances: the unknown key alone and the empty list fail; an unknown key between two
  supported ones is skipped.
\<close>

theorem C4_unknown_propagators_skipped_witness:
  "configurePropagators (demo_PipelineConfig\<lparr>Propagators_p := [''unknown-key'']\<rparr>) world0 =
     (Some (Error ''invalid configuration: unsupported propagators. Supported options: b3,baggage,tracecontext,ottrace''), world0)
   \<and> configurePropagators (demo_PipelineConfig\<lparr>Propagators_p := []\<rparr>) world0 =
     (Some (Error ''invalid configuration: unsupported propagators. Supported options: b3,baggage,tracecontext,ottrace''), world0)
   \<and> configurePropagators
       (demo_PipelineConfig\<lparr>Propagators_p := [''tracecontext'', ''jaeger'', ''baggage'']\<rparr>) world0 =
     (None, world0\<lparr>textMapPropagator_g := Some [TraceContext, Baggage]\<rparr>)"
  using C4_unknown_propagators_skipped
          [of "demo_PipelineConfig\<lparr>Propagators_p := [''unknown-key'']\<rparr>" world0]
        C4_unknown_propagators_skipped
          [of "demo_PipelineConfig\<lparr>Propagators_p := []\<rparr>" world0]
        C4_unknown_propagators_skipped
          [of "demo_PipelineConfig\<lparr>Propagators_p := [''tracecontext'', ''jaeger'', ''baggage'']\<rparr>"
              world0]
  by (simp add: List.map_filter_simps propagatorsMap_def)

section \<open>The trace pipeline\<close>

text \<open>
  Claim C7.  When \<^verbatim>\<open>NewTracePipeline\<close> returns a callback, the span exporter was
  built, and the callback, called with a context in any state of the process, calls
  \<^verbatim>\<open>Shutdown\<close> on the batch span processor first and on the span exporter next and
  makes no other call; its result is the result of the exporter's \<^verbatim>\<open>Shutdown\<close>,
  whatever the processor's \<^verbatim>\<open>Shutdown\<close> returned.
\<close>

theorem C7_trace_shutdown_callback:
  assumes "NewTracePipeline x ctx0 c w0 = ((Some shutdown, err), w1)"
  shows "\<exists>spanExporter bsp.
           newTraceExporter x ctx0 (Endpoint_p c) (Insecure_p c) (Headers_p c) = Inr spanExporter
         \<and> bsp = BatchSpanProcessor spanExporter (BatchTimeout_p c)
         \<and> shutdown ctx w =
             (sdk_Shutdown x (calls w @ [BspShutdown bsp ctx]) (ExporterShutdown spanExporter ctx),
              w\<lparr>calls := calls w @ [BspShutdown bsp ctx, ExporterShutdown spanExporter ctx]\<rparr>)"
  using assms
  by (auto simp: NewTracePipeline_def traceShutdown_def method_Shutdown_def Let_def
      split: sum.splits prod.splits option.splits)

text \<open>
  An instance with an SDK whose processor and exporter both fail to shut down: the
  callback returns the exporter's error.
\<close>

theorem C7_trace_shutdown_callback_witness:
  "NewTracePipeline (demo_externals\<lparr>sdk_Shutdown := demo_failing_Shutdown\<rparr>) Background
     demo_PipelineConfig world0
   = ((Some (traceShutdown (demo_externals\<lparr>sdk_Shutdown := demo_failing_Shutdown\<rparr>)
               demo_Bsp demo_Exporter), None),
      world0\<lparr>textMapPropagator_g := Some [B3_MultipleHeader],
             tracerProvider_g := Some \<lparr>tp_sampler = AlwaysSample, tp_spanProcessor = demo_Bsp,
                                        tp_resource = Resource_p demo_PipelineConfig\<rparr>\<rparr>)
   \<and> traceShutdown (demo_externals\<lparr>sdk_Shutdown := demo_failing_Shutdown\<rparr>)
       demo_Bsp demo_Exporter (Ctx 7) world0
     = (Some (Error ''exporter: connection closed''),
        world0\<lparr>calls := [BspShutdown demo_Bsp (Ctx 7), ExporterShutdown demo_Exporter (Ctx 7)]\<rparr>)"
proof -
  let ?x = "demo_externals\<lparr>sdk_Shutdown := demo_failing_Shutdown\<rparr>"
  have built: "NewTracePipeline ?x Background demo_PipelineConfig world0
     = ((Some (traceShutdown ?x demo_Bsp demo_Exporter), None),
        world0\<lparr>textMapPropagator_g := Some [B3_MultipleHeader],
               tracerProvider_g := Some \<lparr>tp_sampler = AlwaysSample, tp_spanProcessor = demo_Bsp,
                                          tp_resource = Resource_p demo_PipelineConfig\<rparr>\<rparr>)"
    by (simp add: NewTracePipeline_def newTraceExporter_def configurePropagators_def
        propagatorsMap_def demo_externals_def demo_PipelineConfig_def demo_Bsp_def
        demo_Exporter_def Let_def)
  have exp: "newTraceExporter ?x Background (Endpoint_p demo_PipelineConfig)
      (Insecure_p demo_PipelineConfig) (Headers_p demo_PipelineConfig) = Inr demo_Exporter"
    by (simp add: newTraceExporter_def demo_externals_def demo_PipelineConfig_def
        demo_Exporter_def)
  from C7_trace_shutdown_callback [OF built, where ctx = "Ctx 7" and w = world0] exp
  have "traceShutdown ?x demo_Bsp demo_Exporter (Ctx 7) world0
     = (sdk_Shutdown ?x (calls world0 @ [BspShutdown demo_Bsp (Ctx 7)])
          (ExporterShutdown demo_Exporter (Ctx 7)),
        world0\<lparr>calls := calls world0
                  @ [BspShutdown demo_Bsp (Ctx 7), ExporterShutdown demo_Exporter (Ctx 7)]\<rparr>)"
    by (auto simp: demo_Bsp_def demo_PipelineConfig_def)
  then have "traceShutdown ?x demo_Bsp demo_Exporter (Ctx 7) world0
     = (Some (Error ''exporter: connection closed''),
        world0\<lparr>calls := [BspShutdown demo_Bsp (Ctx 7), ExporterShutdown demo_Exporter (Ctx 7)]\<rparr>)"
    by (simp add: demo_failing_Shutdown_def world0_def)
  with built show ?thesis by blast
qed

text \<open>
  Claim C10.  When the span exporter was built and the composition of the propagators
  fails, \<^verbatim>\<open>NewTracePipeline\<close> returns that error and no callback, and it leaves the
  state of the process as it was: no tracer provider is installed (and no propagator).
\<close>

theorem C10_propagator_failure_installs_nothing:
  assumes "newTraceExporter x ctx (Endpoint_p c) (Insecure_p c) (Headers_p c) = Inr spanExporter"
    and "configurePropagators c w = (Some err, w')"
  shows "NewTracePipeline x ctx c w = ((None, Some err), w)
       \<and> tracerProvider_g (snd (NewTracePipeline x ctx c w)) = tracerProvider_g w"
  using assms
  by (auto simp: NewTracePipeline_def configurePropagators_def Let_def split: if_splits)

theorem C10_propagator_failure_installs_nothing_witness:
  "NewTracePipeline demo_externals Background
     (demo_PipelineConfig\<lparr>Propagators_p := [''jaeger'']\<rparr>) world0
   = ((None, Some (Error ''invalid configuration: unsupported propagators. Supported options: b3,baggage,tracecontext,ottrace'')), world0)
   \<and> tracerProvider_g (snd (NewTracePipeline demo_externals Background
       (demo_PipelineConfig\<lparr>Propagators_p := [''jaeger'']\<rparr>) world0)) = None"
proof -
  let ?c = "demo_PipelineConfig\<lparr>Propagators_p := [''jaeger'']\<rparr>"
  have exp: "newTraceExporter demo_externals Background (Endpoint_p ?c) (Insecure_p ?c)
      (Headers_p ?c) = Inr demo_Exporter"
    by (simp add: newTraceExporter_def demo_externals_def demo_PipelineConfig_def
        demo_Exporter_def)
  have props: "configurePropagators ?c world0
     = (Some (Error ''invalid configuration: unsupported propagators. Supported options: b3,baggage,tracecontext,ottrace''), world0)"
    by (simp add: configurePropagators_def propagatorsMap_def)
  from C10_propagator_failure_installs_nothing [OF exp props]
  show ?thesis
    by (simp add: world0_def)
qed

section \<open>The metrics gate\<close>

text \<open>
  Claim C9.  With \<^verbatim>\<open>MetricsEnabled\<close> true, \<^verbatim>\<open>setupMetrics\<close> is the call of
  \<^verbatim>\<open>NewMetricsPipeline\<close> on the configured endpoint, whatever that endpoint is, the
  empty string too; with \<^verbatim>\<open>MetricsEnabled\<close> false it returns nothing and does not
  call it.  The endpoint is no part of the gate.
\<close>

theorem C9_metrics_gate_is_the_flag:
  "(MetricsEnabled c \<longrightarrow>
      setupMetrics x c w =
        NewMetricsPipeline x (context_cfg c)
          \<lparr>Endpoint_p = MetricExporterEndpoint c,
           Insecure_p = MetricExporterEndpointInsecure c,
           Headers_p = Headers c,
           Resource_p = Resource c,
           ReportingPeriod_p = MetricReportingPeriod c,
           BatchTimeout_p = BatchTimeout c,
           Propagators_p = []\<rparr> w)
   \<and> (MetricsEnabled c \<and> MetricExporterEndpoint c = [] \<longrightarrow>
      setupMetrics x c w =
        NewMetricsPipeline x (context_cfg c)
          \<lparr>Endpoint_p = [],
           Insecure_p = MetricExporterEndpointInsecure c,
           Headers_p = Headers c,
           Resource_p = Resource c,
           ReportingPeriod_p = MetricReportingPeriod c,
           BatchTimeout_p = BatchTimeout c,
           Propagators_p = []\<rparr> w)
   \<and> (\<not> MetricsEnabled c \<longrightarrow> setupMetrics x c w = ((None, None), w))"
  by (simp add: setupMetrics_def)

text \<open>
  An instance with the empty endpoint and a constructor that fails on it: the failure
  comes back from \<^verbatim>\<open>setupMetrics\<close>, so the constructor was called.
\<close>

theorem C9_metrics_gate_is_the_flag_witness:
  "setupMetrics
     (demo_externals\<lparr>NewMetricsPipeline :=
        (\<lambda>ctx pc w. if Endpoint_p pc = []
                     then ((None, Some (Error ''failed to create metric exporter'')), w)
                     else demo_NewMetricsPipeline ctx pc w)\<rparr>)
     (zeroConfig\<lparr>MetricsEnabled := True, MetricExporterEndpoint := []\<rparr>) world0
   = ((None, Some (Error ''failed to create metric exporter'')), world0)
   \<and> setupMetrics
     (demo_externals\<lparr>NewMetricsPipeline :=
        (\<lambda>ctx pc w. if Endpoint_p pc = []
                     then ((None, Some (Error ''failed to create metric exporter'')), w)
                     else demo_NewMetricsPipeline ctx pc w)\<rparr>)
     (zeroConfig\<lparr>MetricsEnabled := False, MetricExporterEndpoint := []\<rparr>) world0
   = ((None, None), world0)"
  using C9_metrics_gate_is_the_flag
    [of "zeroConfig\<lparr>MetricsEnabled := True, MetricExporterEndpoint := []\<rparr>"
        "demo_externals\<lparr>NewMetricsPipeline :=
          (\<lambda>ctx pc w. if Endpoint_p pc = []
                       then ((None, Some (Error ''failed to create metric exporter'')), w)
                       else demo_NewMetricsPipeline ctx pc w)\<rparr>" world0]
    C9_metrics_gate_is_the_flag
    [of "zeroConfig\<lparr>MetricsEnabled := False, MetricExporterEndpoint := []\<rparr>"
        "demo_externals\<lparr>NewMetricsPipeline :=
          (\<lambda>ctx pc w. if Endpoint_p pc = []
                       then ((None, Some (Error ''failed to create metric exporter'')), w)
                       else demo_NewMetricsPipeline ctx pc w)\<rparr>" world0]
  by simp

section \<open>The launcher: registered callbacks and shutdown\<close>

lemma ConfigureOpentelemetry_valid:
  assumes "newConfig x opts = Inr c0" and "c = defaultHeaders c0"
    and "validateConfiguration c = None"
  shows "ConfigureOpentelemetry x opts w =
           runSetups x c [setupTracing, setupMetrics] \<lparr>config = c, shutdownFuncs = []\<rparr>
             (installErrorHandler c w)"
  using assms by (simp add: ConfigureOpentelemetry_def Let_def)

lemma demo_Launcher_shutdownFuncs:
  "shutdownFuncs demo_Launcher = [traceShutdown demo_externals demo_Bsp demo_Exporter]"
  by (simp add: demo_Launcher_def ConfigureOpentelemetry_def newConfig_def demo_externals_def
      zeroConfig_def WithServiceName_def WithMetricsEnabled_def Let_def defaultHeaders_def
      validateConfiguration_def installErrorHandler_def setupTracing_def setupMetrics_def
      NewTracePipeline_def newTraceExporter_def configurePropagators_def propagatorsMap_def
      demo_Bsp_def demo_Exporter_def world0_def)

lemma traceShutdown_calls:
  "traceShutdown x bsp e ctx w =
     (sdk_Shutdown x (calls w @ [BspShutdown bsp ctx]) (ExporterShutdown e ctx),
      w\<lparr>calls := calls w @ [BspShutdown bsp ctx, ExporterShutdown e ctx]\<rparr>)"
  by (simp add: traceShutdown_def method_Shutdown_def)

lemma setupTracing_callback:
  assumes "setupTracing x c w = ((Some cb, err), w1)"
  shows "\<exists>spanExporter. cb = traceShutdown x (BatchSpanProcessor spanExporter (BatchTimeout c))
                                 spanExporter"
  using assms
  by (auto simp: setupTracing_def NewTracePipeline_def Let_def
      split: if_splits sum.splits prod.splits option.splits)

lemma traceShutdown_demo:
  "traceShutdown demo_externals bsp e ctx w =
     (None, w\<lparr>calls := calls w @ [BspShutdown bsp ctx, ExporterShutdown e ctx]\<rparr>)"
  by (simp add: traceShutdown_def method_Shutdown_def demo_externals_def)

text \<open>
  Claim C2.  Take a run in which the environment decodes and the configuration is valid,
  and whose span exporter endpoint is empty.
  \<^item> With metrics enabled and a non-empty metric endpoint, when the construction of the
    metrics pipeline succeeds with a callback, \<^verbatim>\<open>ConfigureOpentelemetry\<close> returns a
    Launcher with exactly that one callback.
  \<^item> With metrics disabled it returns a Launcher with no callback, and
    \<^verbatim>\<open>ShutdownContext\<close> and \<^verbatim>\<open>Shutdown\<close> on it return without a fatal error and
    leave the state of the process as it is.
\<close>

theorem C2_metrics_only_and_nothing:
  assumes "newConfig x opts = Inr c0" and "c = defaultHeaders c0"
    and "validateConfiguration c = None"
    and "SpanExporterEndpoint c = []"
  shows "(MetricsEnabled c \<and> MetricExporterEndpoint c \<noteq> []
          \<and> setupMetrics x c (installErrorHandler c w) = ((Some shutdown, None), w')
          \<longrightarrow> ConfigureOpentelemetry x opts w
                = (Inr \<lparr>config = c, shutdownFuncs = [shutdown]\<rparr>, w'))
       \<and> (\<not> MetricsEnabled c
          \<longrightarrow> ConfigureOpentelemetry x opts w
                = (Inr \<lparr>config = c, shutdownFuncs = []\<rparr>, installErrorHandler c w)
              \<and> ShutdownContext \<lparr>config = c, shutdownFuncs = []\<rparr> ctx v = (None, v)
              \<and> Shutdown \<lparr>config = c, shutdownFuncs = []\<rparr> v = (None, v))"
proof (intro conjI impI)
  assume "MetricsEnabled c \<and> MetricExporterEndpoint c \<noteq> []
          \<and> setupMetrics x c (installErrorHandler c w) = ((Some shutdown, None), w')"
  then show "ConfigureOpentelemetry x opts w
                = (Inr \<lparr>config = c, shutdownFuncs = [shutdown]\<rparr>, w')"
    using assms(4) by (simp add: ConfigureOpentelemetry_valid [OF assms(1-3)] setupTracing_def)
next
  assume "\<not> MetricsEnabled c"
  then show "ConfigureOpentelemetry x opts w
                = (Inr \<lparr>config = c, shutdownFuncs = []\<rparr>, installErrorHandler c w)"
    using assms(4)
    by (simp add: ConfigureOpentelemetry_valid [OF assms(1-3)] setupTracing_def setupMetrics_def)
next
  show "ShutdownContext \<lparr>config = c, shutdownFuncs = []\<rparr> ctx v = (None, v)"
    by (simp add: ShutdownContext_def)
next
  show "Shutdown \<lparr>config = c, shutdownFuncs = []\<rparr> v = (None, v)"
    by (simp add: Shutdown_def ShutdownContext_def)
qed

text \<open>
  Two runs with the caller's service name and the empty span endpoint: one registers
  the metrics callback alone, the other, with metrics disabled, registers nothing.
\<close>

theorem C2_metrics_only_and_nothing_witness:
  "(\<exists>ls w'. ConfigureOpentelemetry demo_externals
              [WithServiceName ''svc'', WithSpanExporterEndpoint []] world0 = (Inr ls, w')
           \<and> length (shutdownFuncs ls) = 1
           \<and> calls (snd (Shutdown ls world0))
             = [ExporterShutdown demo_Exporter Background])
   \<and> (\<exists>ls w'. ConfigureOpentelemetry demo_externals
              [WithServiceName ''svc'', WithSpanExporterEndpoint [], WithMetricsEnabled False]
              world0 = (Inr ls, w')
           \<and> shutdownFuncs ls = []
           \<and> Shutdown ls world0 = (None, world0))"
proof -
  let ?opts1 = "[WithServiceName ''svc'', WithSpanExporterEndpoint []]"
  let ?opts2 = "[WithServiceName ''svc'', WithSpanExporterEndpoint [], WithMetricsEnabled False]"
  define c1 where "c1 = (case newConfig demo_externals ?opts1 of Inr c \<Rightarrow> c | Inl f \<Rightarrow> zeroConfig)"
  define c2 where "c2 = (case newConfig demo_externals ?opts2 of Inr c \<Rightarrow> c | Inl f \<Rightarrow> zeroConfig)"
  have n1: "newConfig demo_externals ?opts1 = Inr c1"
    by (simp add: c1_def newConfig_def demo_externals_def Let_def)
  have n2: "newConfig demo_externals ?opts2 = Inr c2"
    by (simp add: c2_def newConfig_def demo_externals_def Let_def)
  have f1: "ServiceName c1 = ''svc'' \<and> SpanExporterEndpoint c1 = [] \<and> MetricsEnabled c1
      \<and> MetricExporterEndpoint c1 = ''ingest.commonfate.io:443'' \<and> Headers c1 = None
      \<and> \<not> MetricExporterEndpointInsecure c1 \<and> errorHandler c1 = Some DefaultHandler"
    by (simp add: c1_def newConfig_def demo_externals_def Let_def zeroConfig_def
        WithServiceName_def WithSpanExporterEndpoint_def)
  have f2: "ServiceName c2 = ''svc'' \<and> SpanExporterEndpoint c2 = [] \<and> \<not> MetricsEnabled c2"
    by (simp add: c2_def newConfig_def demo_externals_def Let_def zeroConfig_def
        WithServiceName_def WithSpanExporterEndpoint_def WithMetricsEnabled_def)
  have v1: "validateConfiguration (defaultHeaders c1) = None"
    using f1 by (simp add: validateConfiguration_def defaultHeaders_def)
  have v2: "validateConfiguration (defaultHeaders c2) = None"
    using f2 by (simp add: validateConfiguration_def defaultHeaders_def)
  have s1: "SpanExporterEndpoint (defaultHeaders c1) = []"
    using f1 by (simp add: defaultHeaders_def)
  have s2: "SpanExporterEndpoint (defaultHeaders c2) = []"
    using f2 by (simp add: defaultHeaders_def)
  let ?cb = "\<lambda>ctx v. (None :: error option, v\<lparr>calls := calls v @ [ExporterShutdown demo_Exporter ctx]\<rparr>)"
  have m1: "MetricsEnabled (defaultHeaders c1) \<and> MetricExporterEndpoint (defaultHeaders c1) \<noteq> []
      \<and> setupMetrics demo_externals (defaultHeaders c1) (installErrorHandler (defaultHeaders c1) world0)
        = ((Some ?cb, None), installErrorHandler (defaultHeaders c1) world0)"
    using f1
    by (simp add: defaultHeaders_def setupMetrics_def demo_externals_def
        demo_NewMetricsPipeline_def demo_Exporter_def)
  have m2: "\<not> MetricsEnabled (defaultHeaders c2)"
    using f2 by (simp add: defaultHeaders_def)
  from C2_metrics_only_and_nothing [OF n1 refl v1 s1, where w = world0 and shutdown = ?cb
      and w' = "installErrorHandler (defaultHeaders c1) world0"] m1
  have r1: "ConfigureOpentelemetry demo_externals ?opts1 world0
      = (Inr \<lparr>config = defaultHeaders c1, shutdownFuncs = [?cb]\<rparr>,
         installErrorHandler (defaultHeaders c1) world0)"
    by blast
  from C2_metrics_only_and_nothing [OF n2 refl v2 s2, where w = world0 and v = world0] m2
  have r2: "ConfigureOpentelemetry demo_externals ?opts2 world0
      = (Inr \<lparr>config = defaultHeaders c2, shutdownFuncs = []\<rparr>,
         installErrorHandler (defaultHeaders c2) world0)
      \<and> Shutdown \<lparr>config = defaultHeaders c2, shutdownFuncs = []\<rparr> world0 = (None, world0)"
    by blast
  have sh: "calls (snd (Shutdown \<lparr>config = defaultHeaders c1, shutdownFuncs = [?cb]\<rparr> world0))
      = [ExporterShutdown demo_Exporter Background]"
    by (simp add: Shutdown_def ShutdownContext_def world0_def)
  from r1 sh r2 show ?thesis by simp
qed

text \<open>
  Claim C6.  Take a run in which the environment decodes and the configuration is valid,
  with tracing and metrics both enabled, in which the trace pipeline is constructed with
  a callback and then the metrics pipeline is constructed with a callback.
  \<^verbatim>\<open>ConfigureOpentelemetry\<close> returns a Launcher that holds the trace callback first and
  the metrics callback second, and \<^verbatim>\<open>ShutdownContext\<close> calls the trace callback on the
  state it is given and, when that returned no error, the metrics callback on the state
  the trace callback left.
\<close>

theorem C6_shutdown_in_registration_order:
  assumes "newConfig x opts = Inr c0" and "c = defaultHeaders c0"
    and "validateConfiguration c = None"
    and "SpanExporterEndpoint c \<noteq> []" and "MetricsEnabled c"
    and "setupTracing x c (installErrorHandler c w) = ((Some traceCallback, None), w1)"
    and "setupMetrics x c w1 = ((Some metricsCallback, None), w2)"
  shows "ConfigureOpentelemetry x opts w
           = (Inr \<lparr>config = c, shutdownFuncs = [traceCallback, metricsCallback]\<rparr>, w2)
       \<and> ShutdownContext \<lparr>config = c, shutdownFuncs = [traceCallback, metricsCallback]\<rparr> ctx v
           = (case traceCallback ctx v of
                (Some err, v1) \<Rightarrow>
                  (Some (Fatal (''failed to stop exporter: '' @ Error_msg err)), v1)
              | (None, v1) \<Rightarrow>
                  (case metricsCallback ctx v1 of
                     (Some err, v2) \<Rightarrow>
                       (Some (Fatal (''failed to stop exporter: '' @ Error_msg err)), v2)
                   | (None, v2) \<Rightarrow> (None, v2)))
       \<and> (\<exists>spanExporter bsp.
            traceCallback ctx v =
              (sdk_Shutdown x (calls v @ [BspShutdown bsp ctx]) (ExporterShutdown spanExporter ctx),
               v\<lparr>calls := calls v @ [BspShutdown bsp ctx, ExporterShutdown spanExporter ctx]\<rparr>))"
proof (intro conjI)
  show "ConfigureOpentelemetry x opts w
           = (Inr \<lparr>config = c, shutdownFuncs = [traceCallback, metricsCallback]\<rparr>, w2)"
    using assms(6,7) by (simp add: ConfigureOpentelemetry_valid [OF assms(1-3)])
next
  show "ShutdownContext \<lparr>config = c, shutdownFuncs = [traceCallback, metricsCallback]\<rparr> ctx v
           = (case traceCallback ctx v of
                (Some err, v1) \<Rightarrow>
                  (Some (Fatal (''failed to stop exporter: '' @ Error_msg err)), v1)
              | (None, v1) \<Rightarrow>
                  (case metricsCallback ctx v1 of
                     (Some err, v2) \<Rightarrow>
                       (Some (Fatal (''failed to stop exporter: '' @ Error_msg err)), v2)
                   | (None, v2) \<Rightarrow> (None, v2)))"
    by (simp add: ShutdownContext_def split: prod.splits option.splits)
next
  from setupTracing_callback [OF assms(6)] obtain spanExporter
    where "traceCallback = traceShutdown x (BatchSpanProcessor spanExporter (BatchTimeout c))
                             spanExporter"
    by blast
  then have "traceCallback ctx v =
      (sdk_Shutdown x (calls v @ [BspShutdown (BatchSpanProcessor spanExporter (BatchTimeout c)) ctx])
         (ExporterShutdown spanExporter ctx),
       v\<lparr>calls := calls v @ [BspShutdown (BatchSpanProcessor spanExporter (BatchTimeout c)) ctx,
                               ExporterShutdown spanExporter ctx]\<rparr>)"
    by (simp add: traceShutdown_calls)
  then show "\<exists>spanExporter bsp.
            traceCallback ctx v =
              (sdk_Shutdown x (calls v @ [BspShutdown bsp ctx]) (ExporterShutdown spanExporter ctx),
               v\<lparr>calls := calls v @ [BspShutdown bsp ctx, ExporterShutdown spanExporter ctx]\<rparr>)"
    by blast
qed

text \<open>
  A run with both pipelines on the default endpoints, the metrics one reached without
  transport security: shutdown calls the processor and the exporter of the trace pipeline
  and then the exporter of the metrics pipeline.
\<close>

theorem C6_shutdown_in_registration_order_witness:
  "\<exists>ls w'. ConfigureOpentelemetry demo_externals
             [WithServiceName ''svc'', WithMetricExporterInsecure True] world0 = (Inr ls, w')
         \<and> length (shutdownFuncs ls) = 2
         \<and> Shutdown ls world0 =
             (None, world0\<lparr>calls :=
                [BspShutdown demo_Bsp Background,
                 ExporterShutdown demo_Exporter Background,
                 ExporterShutdown
                   (Exporter \<lparr>secure = WithInsecure, endpoint = ''ingest.commonfate.io:443'',
                              headers = Some Map.empty, compressor = ''gzip''\<rparr>) Background]\<rparr>)"
proof -
  let ?opts = "[WithServiceName ''svc'', WithMetricExporterInsecure True]"
  define c0 where "c0 = (case newConfig demo_externals ?opts of Inr c \<Rightarrow> c | Inl f \<Rightarrow> zeroConfig)"
  define c where "c = defaultHeaders c0"
  define w1 where "w1 = (installErrorHandler c world0)
      \<lparr>textMapPropagator_g := Some [B3_MultipleHeader],
       tracerProvider_g := Some \<lparr>tp_sampler = AlwaysSample, tp_spanProcessor = demo_Bsp,
                                  tp_resource = Resource c\<rparr>\<rparr>"
  let ?tcb = "traceShutdown demo_externals demo_Bsp demo_Exporter"
  let ?mcb = "\<lambda>ctx v. (None :: error option, v\<lparr>calls := calls v @
      [ExporterShutdown
         (Exporter \<lparr>secure = WithInsecure, endpoint = ''ingest.commonfate.io:443'',
                    headers = Some Map.empty, compressor = ''gzip''\<rparr>) ctx]\<rparr>)"
  have n: "newConfig demo_externals ?opts = Inr c0"
    by (simp add: c0_def newConfig_def demo_externals_def Let_def)
  have f0: "ServiceName c0 = ''svc'' \<and> SpanExporterEndpoint c0 = ''ingest.commonfate.io:443''
      \<and> MetricsEnabled c0 \<and> MetricExporterEndpoint c0 = ''ingest.commonfate.io:443''
      \<and> Headers c0 = None \<and> MetricExporterEndpointInsecure c0
      \<and> \<not> SpanExporterEndpointInsecure c0 \<and> Propagators c0 = [''b3'']
      \<and> BatchTimeout c0 = 5 * Second \<and> context_cfg c0 = Background"
    by (simp add: c0_def newConfig_def demo_externals_def Let_def zeroConfig_def
        WithServiceName_def WithMetricExporterInsecure_def)
  then have f: "ServiceName c = ''svc'' \<and> SpanExporterEndpoint c = ''ingest.commonfate.io:443''
      \<and> MetricsEnabled c \<and> MetricExporterEndpoint c = ''ingest.commonfate.io:443''
      \<and> Headers c = Some Map.empty \<and> MetricExporterEndpointInsecure c
      \<and> \<not> SpanExporterEndpointInsecure c \<and> Propagators c = [''b3'']
      \<and> BatchTimeout c = 5 * Second \<and> context_cfg c = Background"
    by (simp add: c_def defaultHeaders_def)
  have v: "validateConfiguration c = None"
    using f by (simp add: validateConfiguration_def)
  have sp: "SpanExporterEndpoint c \<noteq> []"
    using f by simp
  have me: "MetricsEnabled c"
    using f by simp
  have st: "setupTracing demo_externals c (installErrorHandler c world0) = ((Some ?tcb, None), w1)"
    using f
    by (simp add: setupTracing_def NewTracePipeline_def newTraceExporter_def
        configurePropagators_def propagatorsMap_def demo_externals_def demo_Bsp_def
        demo_Exporter_def w1_def Let_def)
  have sm: "setupMetrics demo_externals c w1 = ((Some ?mcb, None), w1)"
    using f
    by (simp add: setupMetrics_def demo_externals_def demo_NewMetricsPipeline_def)
  from C6_shutdown_in_registration_order [OF n c_def v sp me st sm, where ctx = Background
      and v = world0]
  have r: "ConfigureOpentelemetry demo_externals ?opts world0
        = (Inr \<lparr>config = c, shutdownFuncs = [?tcb, ?mcb]\<rparr>, w1)"
    and s: "ShutdownContext \<lparr>config = c, shutdownFuncs = [?tcb, ?mcb]\<rparr> Background world0
        = (case ?tcb Background world0 of
                (Some err, v1) \<Rightarrow>
                  (Some (Fatal (''failed to stop exporter: '' @ Error_msg err)), v1)
              | (None, v1) \<Rightarrow>
                  (case ?mcb Background v1 of
                     (Some err, v2) \<Rightarrow>
                       (Some (Fatal (''failed to stop exporter: '' @ Error_msg err)), v2)
                   | (None, v2) \<Rightarrow> (None, v2)))"
    by blast+
  from s have "Shutdown \<lparr>config = c, shutdownFuncs = [?tcb, ?mcb]\<rparr> world0 =
             (None, world0\<lparr>calls :=
                [BspShutdown demo_Bsp Background,
                 ExporterShutdown demo_Exporter Background,
                 ExporterShutdown
                   (Exporter \<lparr>secure = WithInsecure, endpoint = ''ingest.commonfate.io:443'',
                              headers = Some Map.empty, compressor = ''gzip''\<rparr>) Background]\<rparr>)"
    by (simp add: Shutdown_def traceShutdown_demo world0_def)
  with r show ?thesis by simp
qed

text \<open>
  Claim C1, as the code has it.  \<^verbatim>\<open>ShutdownContext\<close> never changes the list of
  callbacks of the Launcher.  After a first shutdown that returned without a fatal
  error, a second one on the same Launcher
  \<^item> does nothing when the list is empty;
  \<^item> otherwise calls the first callback again, on the state the first shutdown left,
    is fatal when that callback returns an error, and goes on with the callbacks after
    it in the order of the list when it does not;
  \<^item> for a Launcher that holds the callback of a trace pipeline, calls
    \<^verbatim>\<open>Shutdown\<close> on the batch span processor and on the span exporter a second time.
\<close>

theorem C1_second_shutdown_runs_callbacks_again:
  assumes "ShutdownContext ls ctx w = (None, w1)"
  shows "(shutdownFuncs ls = [] \<longrightarrow> ShutdownContext ls ctx w1 = (None, w1))
       \<and> (\<forall>f fs. shutdownFuncs ls = f # fs \<longrightarrow>
            ShutdownContext ls ctx w1 =
              (case f ctx w1 of
                 (Some err, w2) \<Rightarrow>
                   (Some (Fatal (''failed to stop exporter: '' @ Error_msg err)), w2)
               | (None, w2) \<Rightarrow> runShutdowns fs ctx w2))
       \<and> (shutdownFuncs ls = [traceShutdown x bsp e] \<longrightarrow>
            calls (snd (ShutdownContext ls ctx w1)) =
              calls w @ [BspShutdown bsp ctx, ExporterShutdown e ctx,
                         BspShutdown bsp ctx, ExporterShutdown e ctx])"
proof (intro conjI impI allI)
  assume "shutdownFuncs ls = []"
  then show "ShutdownContext ls ctx w1 = (None, w1)"
    by (simp add: ShutdownContext_def)
next
  fix f fs
  assume "shutdownFuncs ls = f # fs"
  then show "ShutdownContext ls ctx w1 =
      (case f ctx w1 of
         (Some err, w2) \<Rightarrow> (Some (Fatal (''failed to stop exporter: '' @ Error_msg err)), w2)
       | (None, w2) \<Rightarrow> runShutdowns fs ctx w2)"
    by (simp add: ShutdownContext_def)
next
  assume fs: "shutdownFuncs ls = [traceShutdown x bsp e]"
  with assms have "calls w1 = calls w @ [BspShutdown bsp ctx, ExporterShutdown e ctx]"
    by (auto simp: ShutdownContext_def traceShutdown_def method_Shutdown_def
        split: option.splits)
  with fs show "calls (snd (ShutdownContext ls ctx w1)) =
      calls w @ [BspShutdown bsp ctx, ExporterShutdown e ctx,
                 BspShutdown bsp ctx, ExporterShutdown e ctx]"
    by (auto simp: ShutdownContext_def traceShutdown_def method_Shutdown_def
        split: option.splits)
qed

text \<open>
  The Launcher of a process that exports traces only, shut down twice in a row.
\<close>

theorem C1_second_shutdown_runs_callbacks_again_witness:
  "ShutdownContext demo_Launcher (Ctx 1) world0 =
     (None, world0\<lparr>calls := [BspShutdown demo_Bsp (Ctx 1), ExporterShutdown demo_Exporter (Ctx 1)]\<rparr>)
   \<and> calls (snd (ShutdownContext demo_Launcher (Ctx 1)
        (world0\<lparr>calls := [BspShutdown demo_Bsp (Ctx 1), ExporterShutdown demo_Exporter (Ctx 1)]\<rparr>)))
     = [BspShutdown demo_Bsp (Ctx 1), ExporterShutdown demo_Exporter (Ctx 1),
        BspShutdown demo_Bsp (Ctx 1), ExporterShutdown demo_Exporter (Ctx 1)]"
proof -
  have first: "ShutdownContext demo_Launcher (Ctx 1) world0 =
     (None, world0\<lparr>calls := [BspShutdown demo_Bsp (Ctx 1), ExporterShutdown demo_Exporter (Ctx 1)]\<rparr>)"
    by (simp add: ShutdownContext_def demo_Launcher_shutdownFuncs traceShutdown_demo world0_def)
  from C1_second_shutdown_runs_callbacks_again [OF first, where x = demo_externals
      and bsp = demo_Bsp and e = demo_Exporter] demo_Launcher_shutdownFuncs
  have "calls (snd (ShutdownContext demo_Launcher (Ctx 1)
        (world0\<lparr>calls := [BspShutdown demo_Bsp (Ctx 1), ExporterShutdown demo_Exporter (Ctx 1)]\<rparr>)))
     = calls world0 @ [BspShutdown demo_Bsp (Ctx 1), ExporterShutdown demo_Exporter (Ctx 1),
        BspShutdown demo_Bsp (Ctx 1), ExporterShutdown demo_Exporter (Ctx 1)]"
    by blast
  with first show ?thesis
    by (simp add: world0_def)
qed

text \<open>
  Claim C1, as it is stated, fails: the Launcher of a process that exports traces only
  is shut down without a fatal error, its list of callbacks is not empty afterwards, and
  the second shutdown calls the processor and the exporter again.
\<close>

theorem C1_second_shutdown_no_op_counterexample:
  "fst (Shutdown demo_Launcher world0) = None
   \<and> shutdownFuncs demo_Launcher \<noteq> []
   \<and> calls (snd (Shutdown demo_Launcher world0))
     = [BspShutdown demo_Bsp Background, ExporterShutdown demo_Exporter Background]
   \<and> calls (snd (Shutdown demo_Launcher (snd (Shutdown demo_Launcher world0))))
     = [BspShutdown demo_Bsp Background, ExporterShutdown demo_Exporter Background,
        BspShutdown demo_Bsp Background, ExporterShutdown demo_Exporter Background]
   \<and> snd (Shutdown demo_Launcher (snd (Shutdown demo_Launcher world0)))
     \<noteq> snd (Shutdown demo_Launcher world0)"
  by (simp add: Shutdown_def ShutdownContext_def demo_Launcher_shutdownFuncs
      traceShutdown_demo world0_def)

end
